theory Spec2Isabelle
  imports Complex_Main "HOL-Library.AList"
begin

section \<open>Numbers and strings of the Python source\<close>

text \<open>
  Python floats are modelled as real numbers: arithmetic is exact, so the theorems below
  speak about the formulas of the program, not about binary rounding. Python strings are
  \<open>string\<close> (lists of 8-bit characters); case conversion and white space are the ASCII ones.
\<close>

text \<open>
  \<^verbatim>\<open>round(x, 2)\<close>: the nearest multiple of one hundredth, a tie going to the even
  neighbour.
\<close>

definition round_half_even :: "real \<Rightarrow> int" where
  "round_half_even x =
     (let f = \<lfloor>x\<rfloor>; d = x - of_int f
      in if d < 1 / 2 then f else if 1 / 2 < d then f + 1 else if even f then f else f + 1)"

definition py_round2 :: "real \<Rightarrow> real" where
  "py_round2 x = of_int (round_half_even (x * 100)) / 100"

text \<open>\<^verbatim>\<open>str.lower()\<close> on ASCII text.\<close>

definition lower_char :: "char \<Rightarrow> char" where
  "lower_char c =
     (case map_of (zip ''ABCDEFGHIJKLMNOPQRSTUVWXYZ'' ''abcdefghijklmnopqrstuvwxyz'') c of
        Some d \<Rightarrow> d
      | None \<Rightarrow> c)"

definition lower :: "string \<Rightarrow> string" where
  "lower s = map lower_char s"

text \<open>\<^verbatim>\<open>str.isspace()\<close> for one ASCII character, as \<^verbatim>\<open>str.strip()\<close> uses it.\<close>

definition isspace :: "char \<Rightarrow> bool" where
  "isspace c = (c \<in> set [CHR '' '', CHR 0x09, CHR 0x0A, CHR 0x0B, CHR 0x0C, CHR 0x0D,
                           CHR 0x1C, CHR 0x1D, CHR 0x1E, CHR 0x1F])"

definition strip :: "string \<Rightarrow> string" where
  "strip s = rev (dropWhile isspace (rev (dropWhile isspace s)))"

definition startswith :: "string \<Rightarrow> string \<Rightarrow> bool" where
  "startswith s p = (take (length p) s = p)"

text \<open>\<^verbatim>\<open>w in s\<close> for strings: \<open>w\<close> occurs in \<open>s\<close> as a contiguous piece.\<close>

fun contains :: "string \<Rightarrow> string \<Rightarrow> bool" where
  "contains [] w = (w = [])"
| "contains (c # s) w = (startswith (c # s) w \<or> contains s w)"

text \<open>
  \<^verbatim>\<open>s.replace(old, new)\<close>: every occurrence of \<open>old\<close>, found from the left without
  overlap, becomes \<open>new\<close>; an empty \<open>old\<close> matches before every character and at the end.
\<close>

function replace :: "string \<Rightarrow> string \<Rightarrow> string \<Rightarrow> string" where
  "replace old new s =
     (if old = [] then new @ concat (map (\<lambda>c. c # new) s)
      else if s = [] then []
      else if startswith s old then new @ replace old new (drop (length old) s)
      else hd s # replace old new (tl s))"
  by pat_completeness auto
termination
  by (relation "measure (\<lambda>(old, new, s). length s)") auto

declare replace.simps [simp del]

section \<open>The prediction engine (utils/tavily\_predictor.py)\<close>

text \<open>
  The text of the entry \<^verbatim>\<open>reasoning\<close> is kept as its template and the two values the
  template prints. The entry \<^verbatim>\<open>answer_preview\<close>, a display excerpt that no caller
  reads, is not part of the record.
\<close>

datatype reasoning =
    No_search_results
  | Bullish real nat
  | Bearish real nat
  | Mixed real nat

record prediction =
  prob_yes :: real
  confidence :: real
  reasoning :: reasoning
  sentiment :: real

text \<open>
  The object state: the dictionary \<^verbatim>\<open>self.cache\<close>, in insertion order, and a history
  variable \<open>searched\<close> that lists the (question, category) pairs for which \<^verbatim>\<open>_search\<close>
  was run, oldest first. The program has no such list; it records what the program did.
\<close>

record web_predictor =
  cache :: "(string \<times> prediction) list"
  searched :: "(string \<times> string) list"

definition init_predictor :: web_predictor where
  "init_predictor = \<lparr>cache = [], searched = []\<rparr>"

definition stopwords :: "string list" where
  "stopwords = [''will'', ''by'', ''the'', ''in'', ''on'', ''if'', ''?'', ''$'', ''%'']"

definition query_context :: "(string \<times> string) list" where
  "query_context = [(''crypto'', ''price prediction forecast 2026''),
                    (''politics'', ''polls odds prediction''),
                    (''sports'', ''odds prediction''),
                    (''technology'', ''forecast'')]"

definition build_query :: "string \<Rightarrow> string \<Rightarrow> string" where
  "build_query question category =
     (let query = foldl (\<lambda>q word. replace word '' '' q) (lower question) stopwords;
          query = (case map_of query_context category of
                     Some phrase \<Rightarrow> query @ '' '' @ phrase
                   | None \<Rightarrow> query)
      in take 100 (strip query))"

definition bullish :: "string list" where
  "bullish = [''bull'', ''bullish'', ''rally'', ''surge'', ''moon'', ''strong'', ''higher'',
              ''growth'', ''confident'', ''expected'', ''likely'', ''yes'', ''reach'',
              ''target'', ''predict'', ''forecast'']"

definition bearish :: "string list" where
  "bearish = [''bear'', ''bearish'', ''crash'', ''dump'', ''fall'', ''lower'', ''weak'',
              ''unlikely'', ''doubt'', ''correction'', ''no'', ''bearish'']"

definition analyze_sentiment :: "string \<Rightarrow> real" where
  "analyze_sentiment text =
     (let t = lower text;
          pos = length (filter (contains t) bullish);
          neg = length (filter (contains t) bearish);
          total = pos + neg
      in (real pos - real neg) / real (max total 1))"

text \<open>
  The source list: \<^verbatim>\<open>re.findall(r'- \*\*.+?\*\*', text)\<close>. After the opening
  \<^verbatim>\<open>- **\<close> the match takes the fewest characters, at least one and none of them a line
  break, that are followed by \<^verbatim>\<open>**\<close>. \<open>bold_rest\<close> returns the text after such a
  match; \<open>count_sources\<close> counts the matches from the left without overlap.
\<close>

fun bold_rest :: "string \<Rightarrow> string option" where
  "bold_rest [] = None"
| "bold_rest (c # s) =
     (if c = CHR 0x0A then None
      else if startswith s ''**'' then Some (drop 2 s)
      else bold_rest s)"

function count_sources :: "string \<Rightarrow> nat" where
  "count_sources s =
     (if s = [] then 0
      else if startswith s ''- **'' then
        (case bold_rest (drop 4 s) of
           Some r \<Rightarrow> Suc (count_sources r)
         | None \<Rightarrow> count_sources (tl s))
      else count_sources (tl s))"
  by pat_completeness auto
termination
proof (relation "measure length")
  have shorter: "length r < length s" if "bold_rest s = Some r" for s r
    using that by (induction s) (auto split: if_splits)
  fix s r
  assume "s \<noteq> []" and "bold_rest (drop 4 s) = Some r"
  then have "length r < length (drop 4 s)"
    using shorter by blast
  then show "(r, s) \<in> measure length"
    by simp
qed auto

declare count_sources.simps [simp del]

definition parse_results :: "string \<Rightarrow> string \<Rightarrow> prediction" where
  "parse_results text question =
     (if text = [] then
        \<lparr>prob_yes = 0.5, confidence = 0.0, reasoning = No_search_results, sentiment = 0.0\<rparr>
      else
        let num_sources = count_sources text;
            sentiment = analyze_sentiment text;
            base_prob = 0.5;
            adjustment = sentiment * 0.25;
            prob_yes = max 0.05 (min 0.95 (base_prob + adjustment));
            confidence = min (0.35 + real num_sources * 0.08 + \<bar>sentiment\<bar> * 0.25) 0.85;
            reasoning = (if sentiment > 0.3 then Bullish sentiment num_sources
                         else if sentiment < - 0.3 then Bearish sentiment num_sources
                         else Mixed sentiment num_sources)
        in \<lparr>prob_yes = py_round2 prob_yes, confidence = py_round2 confidence,
            reasoning = reasoning, sentiment = py_round2 sentiment\<rparr>)"

definition cache_key :: "string \<Rightarrow> string \<Rightarrow> string" where
  "cache_key market_question category = market_question @ ''_'' @ category"

text \<open>
  \<^verbatim>\<open>_search\<close> runs an external program; \<open>search n query\<close> is the text it returns on
  the \<open>n\<close>-th run (the empty string when the program fails or times out), so two runs
  with one query may differ.
\<close>

definition predict ::
  "(nat \<Rightarrow> string \<Rightarrow> string) \<Rightarrow> string \<Rightarrow> string \<Rightarrow> web_predictor \<Rightarrow> prediction \<times> web_predictor"
where
  "predict search market_question category st =
     (case map_of (cache st) (cache_key market_question category) of
        Some p \<Rightarrow> (p, st)
      | None \<Rightarrow>
          let query = build_query market_question category;
              result = search (length (searched st)) query;
              p = parse_results result market_question
          in (p, st\<lparr>cache := cache st @ [(cache_key market_question category, p)],
                    searched := searched st @ [(market_question, category)]\<rparr>))"

text \<open>The states one predictor object goes through: created empty, then called.\<close>

inductive reachable :: "(nat \<Rightarrow> string \<Rightarrow> string) \<Rightarrow> web_predictor \<Rightarrow> bool"
  for search :: "nat \<Rightarrow> string \<Rightarrow> string"
where
  created: "reachable search init_predictor"
| called: "reachable search st \<Longrightarrow> reachable search (snd (predict search q c st))"

fun predict_all ::
  "(nat \<Rightarrow> string \<Rightarrow> string) \<Rightarrow> (string \<times> string) list \<Rightarrow> web_predictor \<Rightarrow> web_predictor"
where
  "predict_all search [] st = st"
| "predict_all search ((q, c) # calls) st = predict_all search calls (snd (predict search q c st))"

section \<open>The paper traders (paper\_trader.py and paper\_trader\_v2.py)\<close>

text \<open>
  A field of an inbound dictionary that may be absent is an \<open>option\<close> (\<open>None\<close>: the key is
  not there). Where two dictionaries use one key, the record fields carry a prefix:
  \<open>m_\<close> for the market's \<^verbatim>\<open>question\<close> and \<^verbatim>\<open>id\<close>, \<open>ev_\<close> for the event, \<open>trade_\<close> for
  the row's \<^verbatim>\<open>confidence\<close> and \<^verbatim>\<open>reasoning\<close>. A price is a JSON value, which need not
  be a number.
\<close>

datatype jval = JNumber real | JString string | JNull

record market =
  m_question :: "string option"
  m_id :: "string option"
  endDate :: "string option"
  event_title :: "string option"
  event_end_date :: "string option"
  prices :: "(string \<times> jval) list option"
  volume :: "jval option"

record event =
  ev_title :: "string option"
  ev_endDate :: "string option"
  ev_markets :: "market list option"

text \<open>
  A \<^verbatim>\<open>datetime\<close>: the reading of calendar and clock as microseconds on a fixed scale
  (\<open>wall\<close>), and the \<^verbatim>\<open>tzinfo\<close>, \<open>None\<close> for a naive value or the offset from UTC in
  microseconds. An aware value denotes the instant \<open>wall - offset\<close>; a naive one is read
  as UTC. \<^verbatim>\<open>datetime.fromisoformat\<close> is a parameter of the model: \<open>None\<close> stands for its
  \<^verbatim>\<open>ValueError\<close>.
\<close>

record datetime =
  wall :: int
  utcoffset :: "int option"

definition instant :: "datetime \<Rightarrow> int" where
  "instant d = wall d - (case utcoffset d of Some off \<Rightarrow> off | None \<Rightarrow> 0)"

text \<open>\<^verbatim>\<open>d.replace(tzinfo=timezone.utc)\<close> keeps the reading and sets the offset to zero.\<close>

definition replace_tzinfo_utc :: "datetime \<Rightarrow> datetime" where
  "replace_tzinfo_utc d = d\<lparr>utcoffset := Some 0\<rparr>"

definition microseconds_per_day :: int where
  "microseconds_per_day = 86400000000"

datatype direction = YES | NO

record paper_trade =
  market_id :: string
  question :: string
  category :: string
  our_prediction :: real
  market_odds :: real
  direction :: direction
  trade_confidence :: real
  edge :: real
  sentiment_score :: real
  trade_reasoning :: reasoning
  trade_size :: real
  open_time :: int

text \<open>
  What \<^verbatim>\<open>_analyze_market\<close> returns: a tag, \<^verbatim>\<open>None\<close> or the dictionary of a paper
  trade. The first version returns \<^verbatim>\<open>None\<close> where the second returns a tag.
\<close>

datatype analysis = SKIPPED_DATE | SKIPPED_YEAR | No_trade | Trade paper_trade

datatype error = TypeError | KeyError | AttributeError

text \<open>
  A row of the table \<^verbatim>\<open>paper_predictions\<close>: the inserted columns, and the columns an
  insert leaves \<^verbatim>\<open>NULL\<close>. The row number and \<^verbatim>\<open>created_at\<close> are filled in by the
  database and are not modelled.
\<close>

record ledger_row =
  trade :: paper_trade
  resolve_time :: "string option"
  outcome :: "string option"
  resolved_value :: "real option"
  pnl :: "real option"

record paper_trader =
  predictor :: web_predictor
  db :: "ledger_row list"

record paper_trader_v2 = paper_trader +
  current_year :: int

definition detect_category :: "string \<Rightarrow> string" where
  "detect_category text =
     (let q = lower text
      in if list_ex (contains q) [''bitcoin'', ''btc'', ''crypto'', ''ethereum''] then ''crypto''
         else if list_ex (contains q) [''trump'', ''biden'', ''election'', ''senate''] then ''politics''
         else if list_ex (contains q) [''super bowl'', ''nba'', ''nfl'', ''championship''] then ''sports''
         else ''other'')"

definition isdigit :: "char \<Rightarrow> bool" where
  "isdigit c = (c \<in> set ''0123456789'')"

text \<open>\<^verbatim>\<open>re.findall(r'20\d\d', question)\<close>: the matches from the left, without overlap.\<close>

fun findall_year :: "string \<Rightarrow> string list" where
  "findall_year (a # b # c # d # s) =
     (if a = CHR ''2'' \<and> b = CHR ''0'' \<and> isdigit c \<and> isdigit d
      then [a, b, c, d] # findall_year s
      else findall_year (b # c # d # s))"
| "findall_year s = []"

text \<open>\<^verbatim>\<open>int(year_str)\<close> on a string of decimal digits.\<close>

definition digit_value :: "char \<Rightarrow> int" where
  "digit_value c = (case map_of (zip ''0123456789'' [0, 1, 2, 3, 4, 5, 6, 7, 8, 9]) c of
                      Some v \<Rightarrow> v
                    | None \<Rightarrow> 0)"

definition py_int :: "string \<Rightarrow> int" where
  "py_int s = foldl (\<lambda>n c. 10 * n + digit_value c) 0 s"

text \<open>
  The check of the end date, as the first version has it and as the second has it.
  \<open>Some r\<close>: the method returns \<open>r\<close> at once; \<open>None\<close>: it goes on. The bare
  \<^verbatim>\<open>except: pass\<close> turns a date that does not parse into "goes on". Both values of the
  comparison are aware and in UTC, so it compares the instants.
\<close>

definition check_end_date ::
  "(string \<Rightarrow> datetime option) \<Rightarrow> int \<Rightarrow> string \<Rightarrow> analysis option"
where
  "check_end_date fromisoformat now end_date =
     (if end_date \<noteq> [] then
        (case fromisoformat (replace ''Z'' ''+00:00'' end_date) of
           None \<Rightarrow> None
         | Some d \<Rightarrow>
             let end_dt = replace_tzinfo_utc d
             in if instant end_dt < now then Some No_trade else None)
      else None)"

definition check_end_date_v2 ::
  "(string \<Rightarrow> datetime option) \<Rightarrow> int \<Rightarrow> int \<Rightarrow> string \<Rightarrow> analysis option"
where
  "check_end_date_v2 fromisoformat now days_ahead end_date =
     (if end_date \<noteq> [] then
        (case fromisoformat (replace ''Z'' ''+00:00'' end_date) of
           None \<Rightarrow> None
         | Some d \<Rightarrow>
             let end_dt = replace_tzinfo_utc d
             in if instant end_dt < now then Some SKIPPED_DATE
                else
                  let days_until = (instant end_dt - now) div microseconds_per_day
                  in if days_until > days_ahead then Some No_trade else None)
      else None)"

text \<open>
  The lines from the price lookup to the returned dictionary are the same in the two
  versions. A price that is not a number makes the subtraction raise \<^verbatim>\<open>TypeError\<close>,
  after the prediction has been made. The local variables \<open>q\<close>, \<open>mid\<close>, \<open>cat\<close>, \<open>e\<close> and
  \<open>conf\<close> are the source's \<^verbatim>\<open>question\<close>, \<^verbatim>\<open>market_id\<close>, \<^verbatim>\<open>category\<close>, \<^verbatim>\<open>edge\<close> and
  \<^verbatim>\<open>confidence\<close>; \<open>question_of\<close> is \<^verbatim>\<open>market.get("question", "")\<close>.
\<close>

definition yes_price_of :: "market \<Rightarrow> jval" where
  "yes_price_of m =
     (let d = (case prices m of Some d \<Rightarrow> d | None \<Rightarrow> [])
      in case map_of d ''yes'' of Some v \<Rightarrow> v | None \<Rightarrow> JNumber 0.5)"

definition question_of :: "market \<Rightarrow> string" where
  "question_of m = (case m_question m of Some q \<Rightarrow> q | None \<Rightarrow> [])"

definition proposed_size :: "real \<Rightarrow> real" where
  "proposed_size conf = py_round2 (10 + conf * 40)"

definition predict_and_score ::
  "(nat \<Rightarrow> string \<Rightarrow> string) \<Rightarrow> int \<Rightarrow> market \<Rightarrow> web_predictor \<Rightarrow> error + analysis \<times> web_predictor"
where
  "predict_and_score search now m pst =
     (let q = question_of m;
          mid = (case m_id m of Some i \<Rightarrow> i | None \<Rightarrow> []);
          yes_price = yes_price_of m;
          cat = detect_category q;
          (p, pst') = predict search q cat pst;
          our_prob = prob_yes p
      in case yes_price of
           JNumber yes_price \<Rightarrow>
             let e = \<bar>our_prob - yes_price\<bar>;
                 conf = confidence p
             in if e < 0.10 \<or> conf < 0.65 then Inr (No_trade, pst')
                else Inr (Trade \<lparr>market_id = mid, question = q,
                                  category = cat, our_prediction = our_prob,
                                  market_odds = yes_price,
                                  direction = (if our_prob > yes_price then YES else NO),
                                  trade_confidence = conf, edge = e,
                                  sentiment_score = sentiment p,
                                  trade_reasoning = reasoning p,
                                  trade_size = proposed_size conf,
                                  open_time = now\<rparr>, pst')
         | _ \<Rightarrow> Inl TypeError)"

text \<open>paper\_trader.py, \<^verbatim>\<open>_analyze_market\<close>.\<close>

definition analyze_market ::
  "(string \<Rightarrow> datetime option) \<Rightarrow> (nat \<Rightarrow> string \<Rightarrow> string) \<Rightarrow> int \<Rightarrow> market \<Rightarrow> web_predictor
     \<Rightarrow> error + analysis \<times> web_predictor"
where
  "analyze_market fromisoformat search now m pst =
     (let end_date = (case endDate m of Some e \<Rightarrow> e | None \<Rightarrow> [])
      in case check_end_date fromisoformat now end_date of
           Some r \<Rightarrow> Inr (r, pst)
         | None \<Rightarrow> predict_and_score search now m pst)"

text \<open>
  paper\_trader\_v2.py, \<^verbatim>\<open>_analyze_market\<close>. \<open>year\<close> is \<^verbatim>\<open>self.current_year\<close>, the
  UTC year read when the trader object was made; \<open>end_date_v2\<close> is the line
  \<^verbatim>\<open>market.get("endDate") or market.get("event_end_date", "")\<close>.
\<close>

definition end_date_v2 :: "market \<Rightarrow> string" where
  "end_date_v2 m =
     (let event_end = (case event_end_date m of Some e \<Rightarrow> e | None \<Rightarrow> [])
      in case endDate m of
           Some e \<Rightarrow> if e \<noteq> [] then e else event_end
         | None \<Rightarrow> event_end)"

definition analyze_market_v2 ::
  "(string \<Rightarrow> datetime option) \<Rightarrow> (nat \<Rightarrow> string \<Rightarrow> string) \<Rightarrow> int \<Rightarrow> int \<Rightarrow> market \<Rightarrow> int
     \<Rightarrow> web_predictor \<Rightarrow> error + analysis \<times> web_predictor"
where
  "analyze_market_v2 fromisoformat search year now m days_ahead pst =
     (let q = question_of m;
          end_date = end_date_v2 m
      in case check_end_date_v2 fromisoformat now days_ahead end_date of
           Some r \<Rightarrow> Inr (r, pst)
         | None \<Rightarrow>
             if list_ex (\<lambda>year_str. py_int year_str < year) (findall_year q)
             then Inr (SKIPPED_YEAR, pst)
             else predict_and_score search now m pst)"

text \<open>
  \<^verbatim>\<open>scan_and_predict\<close>: the events are the answer of \<^verbatim>\<open>get_events\<close>; every market gets
  the title and end date of its event; the markets are analysed in order (\<open>clock i\<close> is
  the time read while market number \<open>i\<close> is analysed); the paper trades are inserted
  into the table and returned. An exception leaves the method before the insert.
\<close>

definition flatten :: "event list \<Rightarrow> market list" where
  "flatten events =
     concat (map (\<lambda>e. map (\<lambda>m. m\<lparr>event_title := Some (case ev_title e of Some t \<Rightarrow> t | None \<Rightarrow> []),
                                   event_end_date := Some (case ev_endDate e of Some d \<Rightarrow> d | None \<Rightarrow> [])\<rparr>)
                          (case ev_markets e of Some ms \<Rightarrow> ms | None \<Rightarrow> []))
                 events)"

definition trades_of :: "analysis \<Rightarrow> paper_trade list" where
  "trades_of r = (case r of Trade t \<Rightarrow> [t] | _ \<Rightarrow> [])"

fun analyze_all ::
  "(nat \<Rightarrow> market \<Rightarrow> web_predictor \<Rightarrow> error + analysis \<times> web_predictor) \<Rightarrow> nat \<Rightarrow> market list
     \<Rightarrow> web_predictor \<Rightarrow> error + paper_trade list \<times> web_predictor"
where
  "analyze_all analyze i [] pst = Inr ([], pst)"
| "analyze_all analyze i (m # ms) pst =
     (case analyze i m pst of
        Inl e \<Rightarrow> Inl e
      | Inr (pred, pst') \<Rightarrow>
          (case analyze_all analyze (Suc i) ms pst' of
             Inl e \<Rightarrow> Inl e
           | Inr (predictions, pst'') \<Rightarrow> Inr (trades_of pred @ predictions, pst'')))"

definition log_predictions :: "paper_trade list \<Rightarrow> ledger_row list \<Rightarrow> ledger_row list" where
  "log_predictions predictions rows =
     rows @ map (\<lambda>p. \<lparr>trade = p, resolve_time = None, outcome = None,
                       resolved_value = None, pnl = None\<rparr>) predictions"

definition scan_and_predict ::
  "(string \<Rightarrow> datetime option) \<Rightarrow> (nat \<Rightarrow> string \<Rightarrow> string) \<Rightarrow> (nat \<Rightarrow> int) \<Rightarrow> event list
     \<Rightarrow> paper_trader \<Rightarrow> error + paper_trade list \<times> paper_trader"
where
  "scan_and_predict fromisoformat search clock events self =
     (case analyze_all (\<lambda>i. analyze_market fromisoformat search (clock i)) 0 (flatten events)
             (predictor self) of
        Inl e \<Rightarrow> Inl e
      | Inr (predictions, pst) \<Rightarrow>
          Inr (predictions, self\<lparr>predictor := pst, db := log_predictions predictions (db self)\<rparr>))"

definition scan_and_predict_v2 ::
  "(string \<Rightarrow> datetime option) \<Rightarrow> (nat \<Rightarrow> string \<Rightarrow> string) \<Rightarrow> (nat \<Rightarrow> int) \<Rightarrow> event list \<Rightarrow> int
     \<Rightarrow> paper_trader_v2 \<Rightarrow> error + paper_trade list \<times> paper_trader_v2"
where
  "scan_and_predict_v2 fromisoformat search clock events days_ahead self =
     (case analyze_all (\<lambda>i m. analyze_market_v2 fromisoformat search (current_year self) (clock i)
                                m days_ahead)
             0 (flatten events) (predictor self) of
        Inl e \<Rightarrow> Inl e
      | Inr (predictions, pst) \<Rightarrow>
          Inr (predictions, self\<lparr>predictor := pst, db := log_predictions predictions (db self)\<rparr>))"

section \<open>Ledger statistics\<close>

text \<open>
  paper\_trader.py, \<^verbatim>\<open>get_stats\<close>: one \<^verbatim>\<open>SELECT\<close> over the rows
  \<^verbatim>\<open>WHERE outcome IS NOT NULL\<close>. \<^verbatim>\<open>SUM\<close> skips \<^verbatim>\<open>NULL\<close> values and
  \<^verbatim>\<open>COALESCE\<close> turns the \<^verbatim>\<open>NULL\<close> of an empty sum into 0. The method returns the
  dictionary; the model returns the object next to it, to show what the call leaves behind.
\<close>

record stats =
  total_predictions :: nat
  wins :: nat
  losses :: nat
  win_rate :: real
  total_pnl :: real

definition get_stats :: "paper_trader \<Rightarrow> stats \<times> paper_trader" where
  "get_stats self =
     (let rows = filter (\<lambda>r. outcome r \<noteq> None) (db self);
          total = length rows;
          w = length (filter (\<lambda>r. outcome r = Some ''WIN'') rows);
          l = length (filter (\<lambda>r. outcome r = Some ''LOSS'') rows);
          p = sum_list (List.map_filter pnl rows);
          rate = (if w + l > 0 then real w / real (w + l) * 100 else 0)
      in (\<lparr>total_predictions = total, wins = w, losses = l, win_rate = rate, total_pnl = p\<rparr>,
          self))"

text \<open>
  scheduler.py, \<^verbatim>\<open>get_stats\<close>: one \<^verbatim>\<open>SELECT\<close> over all rows, with no
  \<^verbatim>\<open>COALESCE\<close>. On an empty table the two sums are \<^verbatim>\<open>NULL\<close>, the comparison
  \<^verbatim>\<open>resolved > 0\<close> raises \<^verbatim>\<open>TypeError\<close>, and the bare \<^verbatim>\<open>except\<close> returns the
  dictionary of zeros.
\<close>

record scheduler_stats =
  sched_total :: nat
  sched_resolved :: nat
  sched_wins :: nat
  sched_win_rate :: real

definition scheduler_get_stats :: "ledger_row list \<Rightarrow> scheduler_stats \<times> ledger_row list" where
  "scheduler_get_stats rows =
     (let total = length rows;
          resolved = (if rows = [] then None
                      else Some (length (filter (\<lambda>r. outcome r \<noteq> None) rows)));
          w = (if rows = [] then None
               else Some (length (filter (\<lambda>r. outcome r = Some ''WIN'') rows)))
      in case (resolved, w) of
           (Some resolved, Some w) \<Rightarrow>
             (\<lparr>sched_total = total, sched_resolved = resolved, sched_wins = w,
               sched_win_rate = (if resolved > 0 then real w / real (max resolved 1) * 100 else 0)\<rparr>,
              rows)
         | _ \<Rightarrow>
             (\<lparr>sched_total = 0, sched_resolved = 0, sched_wins = 0, sched_win_rate = 0\<rparr>, rows))"

section \<open>The risk gate of the trading bot (main.py)\<close>

text \<open>
  The dictionaries of main.py, with the keys the two methods read; the fields carry the
  prefixes \<open>cfg_\<close>, \<open>bm_\<close>, \<open>bp_\<close>, \<open>opp_\<close> and \<open>dec_\<close>. \<^verbatim>\<open>self.active_positions\<close> is
  a dictionary from market id to decision, kept as an association list.
\<close>

record config =
  cfg_max_trade_size :: real
  cfg_max_open_positions :: int
  cfg_auto_execute :: bool

record bot_market =
  bm_id :: "string option"
  bm_volume :: "real option"
  bm_yes_price :: "real option"

record bot_prediction =
  bp_direction :: string
  bp_probability :: real
  bp_confidence :: real
  bp_reasoning :: string

record opportunity =
  opp_market :: bot_market
  opp_prediction :: bot_prediction
  opp_edge :: real

record decision =
  dec_market_id :: string
  dec_side :: direction
  dec_size :: real
  dec_confidence :: real
  dec_reasoning :: string

text \<open>
  \<^verbatim>\<open>RiskManager\<close> is imported from a module that is not among the sources; its two
  methods are parameters: \<open>calculate_position confidence edge volatility\<close> and
  \<open>approve_trade size probability price\<close>.
\<close>

definition evaluate_position ::
  "config \<Rightarrow> (real \<Rightarrow> real \<Rightarrow> real \<Rightarrow> real) \<Rightarrow> (real \<Rightarrow> real \<Rightarrow> real \<Rightarrow> bool)
     \<Rightarrow> (string \<times> decision) list \<Rightarrow> opportunity \<Rightarrow> error + decision option"
where
  "evaluate_position cfg calculate_position approve_trade active_positions opportunity =
     (let m = opp_market opportunity;
          p = opp_prediction opportunity
      in if int (length active_positions) \<ge> cfg_max_open_positions cfg then Inr None
         else case bm_id m of
           None \<Rightarrow> Inl KeyError
         | Some mid \<Rightarrow>
             if mid \<in> fst ` set active_positions then Inr None
             else
               let position_size =
                     calculate_position (bp_confidence p) (opp_edge opportunity)
                       (case bm_volume m of Some v \<Rightarrow> v | None \<Rightarrow> 1000)
               in if \<not> approve_trade position_size (bp_probability p)
                          (case bm_yes_price m of Some v \<Rightarrow> v | None \<Rightarrow> 0.5)
                  then Inr None
                  else Inr (Some \<lparr>dec_market_id = mid,
                                   dec_side = (if bp_direction p = ''UP'' then YES else NO),
                                   dec_size = min position_size (cfg_max_trade_size cfg),
                                   dec_confidence = bp_confidence p,
                                   dec_reasoning = bp_reasoning p\<rparr>))"

text \<open>
  \<^verbatim>\<open>execute_trade\<close>: what the call of \<^verbatim>\<open>place_order\<close> does is an input: it returns a
  result that counts as true, returns \<^verbatim>\<open>None\<close>, or raises. The method returns the order
  result; the model returns whether there is one, and the dictionary afterwards.
\<close>

datatype order_result = Order_placed | Order_none | Order_raised

definition execute_trade ::
  "config \<Rightarrow> order_result \<Rightarrow> (string \<times> decision) list \<Rightarrow> decision
     \<Rightarrow> (error + bool) \<times> (string \<times> decision) list"
where
  "execute_trade cfg result active_positions d =
     (if cfg_auto_execute cfg then
        (case result of
           Order_placed \<Rightarrow> (Inr True, AList.update (dec_market_id d) d active_positions)
         | Order_none \<Rightarrow> (Inr False, active_positions)
         | Order_raised \<Rightarrow> (Inl TypeError, active_positions))
      else (Inr False, active_positions))"

text \<open>
  \<^verbatim>\<open>monitor_positions\<close> walks a copy of the items; \<open>resolved market_id\<close> is what
  \<^verbatim>\<open>get_market\<close> answers: \<open>None\<close> when it returns no market (the next line then raises
  \<^verbatim>\<open>AttributeError\<close>), else the truth value of the market's \<^verbatim>\<open>resolved\<close>. The deletions
  made before an exception stay. The exit signal for a position that stays is only logged.
\<close>

fun monitor_loop ::
  "(string \<Rightarrow> bool option) \<Rightarrow> (string \<times> decision) list \<Rightarrow> (string \<times> decision) list
     \<Rightarrow> error option \<times> (string \<times> decision) list"
where
  "monitor_loop resolved [] active_positions = (None, active_positions)"
| "monitor_loop resolved ((mid, position) # items) active_positions =
     (case resolved mid of
        None \<Rightarrow> (Some AttributeError, active_positions)
      | Some True \<Rightarrow> monitor_loop resolved items (AList.delete mid active_positions)
      | Some False \<Rightarrow> monitor_loop resolved items active_positions)"

definition monitor_positions ::
  "(string \<Rightarrow> bool option) \<Rightarrow> (string \<times> decision) list \<Rightarrow> error option \<times> (string \<times> decision) list"
where
  "monitor_positions resolved active_positions =
     monitor_loop resolved active_positions active_positions"

text \<open>
  Modelled from the spec: the loop of \<^verbatim>\<open>run\<close> that drives the gate (main.py breaks off
  at the \<^verbatim>\<open>try:\<close> that opens it). Section 4.7 of the specification puts the gate
  right before the step that acts on its decision, so a decision is executed in the state
  in which \<^verbatim>\<open>evaluate_position\<close> returned it; positions are monitored in between.
\<close>

inductive bot_reachable ::
  "config \<Rightarrow> (real \<Rightarrow> real \<Rightarrow> real \<Rightarrow> real) \<Rightarrow> (real \<Rightarrow> real \<Rightarrow> real \<Rightarrow> bool)
     \<Rightarrow> (string \<times> decision) list \<Rightarrow> bool"
  for cfg :: config
    and calculate_position :: "real \<Rightarrow> real \<Rightarrow> real \<Rightarrow> real"
    and approve_trade :: "real \<Rightarrow> real \<Rightarrow> real \<Rightarrow> bool"
where
  started: "bot_reachable cfg calculate_position approve_trade []"
| traded:
    "bot_reachable cfg calculate_position approve_trade ps \<Longrightarrow>
     evaluate_position cfg calculate_position approve_trade ps opp = Inr (Some d) \<Longrightarrow>
     bot_reachable cfg calculate_position approve_trade (snd (execute_trade cfg result ps d))"
| monitored:
    "bot_reachable cfg calculate_position approve_trade ps \<Longrightarrow>
     bot_reachable cfg calculate_position approve_trade (snd (monitor_positions resolved ps))"

section \<open>The listing script (check\_markets.py)\<close>

text \<open>
  Lines 38 to 47: price and volume as the script prints them. \<^verbatim>\<open>float(x)\<close> raises on
  \<^verbatim>\<open>None\<close> and on a string that is no number, and the bare \<^verbatim>\<open>except\<close> then puts 0.
  \<open>float_of_string\<close> is \<^verbatim>\<open>float\<close> on strings, a parameter.
\<close>

definition py_float :: "(string \<Rightarrow> real option) \<Rightarrow> jval \<Rightarrow> real option" where
  "py_float float_of_string v =
     (case v of JNumber x \<Rightarrow> Some x | JString s \<Rightarrow> float_of_string s | JNull \<Rightarrow> None)"

definition listed_yes_price :: "(string \<Rightarrow> real option) \<Rightarrow> market \<Rightarrow> real" where
  "listed_yes_price float_of_string m =
     (let d = (case prices m of Some d \<Rightarrow> d | None \<Rightarrow> []);
          v = (case map_of d ''yes'' of Some v \<Rightarrow> v | None \<Rightarrow> JNumber 0)
      in case py_float float_of_string v of Some x \<Rightarrow> x * 100 | None \<Rightarrow> 0)"

definition listed_volume :: "(string \<Rightarrow> real option) \<Rightarrow> market \<Rightarrow> real" where
  "listed_volume float_of_string m =
     (let v = (case volume m of Some v \<Rightarrow> v | None \<Rightarrow> JNumber 0)
      in case py_float float_of_string v of Some x \<Rightarrow> x / 1000 | None \<Rightarrow> 0)"

section \<open>Notions of the specification\<close>

text \<open>The ranges the specification gives for a prediction.\<close>

definition clamped :: "prediction \<Rightarrow> bool" where
  "clamped p = (0.05 \<le> prob_yes p \<and> prob_yes p \<le> 0.95 \<and> 0 \<le> confidence p \<and> confidence p \<le> 0.85)"

text \<open>A number with two decimals: rounding to two decimals does not move it.\<close>

definition hundredths :: "real \<Rightarrow> bool" where
  "hundredths x = (py_round2 x = x)"

text \<open>
  A cache whose entries look like results of the engine: in the ranges, with a
  confidence of two decimals.
\<close>

definition cache_ok :: "web_predictor \<Rightarrow> bool" where
  "cache_ok st = list_all (\<lambda>(k, p). clamped p \<and> hundredths (confidence p)) (cache st)"

text \<open>No pair was searched twice, and every searched pair has its entry in the cache.\<close>

definition searched_ok :: "web_predictor \<Rightarrow> bool" where
  "searched_ok st =
     (distinct (searched st) \<and>
      list_all (\<lambda>(q, c). map_of (cache st) (cache_key q c) \<noteq> None) (searched st))"

text \<open>The gate of the specification, with the default thresholds, on a row.\<close>

definition meets_thresholds :: "paper_trade \<Rightarrow> bool" where
  "meets_thresholds t =
     (edge t = \<bar>our_prediction t - market_odds t\<bar> \<and> 0.10 \<le> edge t \<and> 0.65 \<le> trade_confidence t)"

text \<open>
  A year token of a question, in the words of the specification: four characters
  \<^verbatim>\<open>20xx\<close>, \<^verbatim>\<open>x\<close> a digit, that start the text or follow a character that is no
  digit. \<open>spec_year_tokens after_digit s\<close> lists the tokens of \<open>s\<close>, where
  \<open>after_digit\<close> tells whether a digit stands before \<open>s\<close>.
\<close>

definition is_year :: "string \<Rightarrow> bool" where
  "is_year w = (case w of
                  [a, b, c, d] \<Rightarrow> a = CHR ''2'' \<and> b = CHR ''0'' \<and> isdigit c \<and> isdigit d
                | _ \<Rightarrow> False)"

fun spec_year_tokens :: "bool \<Rightarrow> string \<Rightarrow> string list" where
  "spec_year_tokens after_digit [] = []"
| "spec_year_tokens after_digit (c # s) =
     (if \<not> after_digit \<and> is_year (take 4 (c # s)) then [take 4 (c # s)] else [])
     @ spec_year_tokens (isdigit c) s"

definition has_past_year :: "int \<Rightarrow> string \<Rightarrow> bool" where
  "has_past_year year q = list_ex (\<lambda>w. py_int w < year) (spec_year_tokens False q)"

text \<open>
  The end-date step of the filter lets a market through, in the words of the
  specification: the resolution date is missing, or it does not parse, or it is not before
  now and not more than \<open>days_ahead\<close> whole days ahead. The last case is stated for dates
  written in UTC only (no offset, or offset zero, as the \<^verbatim>\<open>Z\<close> of the provider gives);
  dates with another offset are left out.
\<close>

definition end_date_lets_through ::
  "(string \<Rightarrow> datetime option) \<Rightarrow> int \<Rightarrow> int \<Rightarrow> market \<Rightarrow> bool"
where
  "end_date_lets_through fromisoformat now days_ahead m =
     (end_date_v2 m = [] \<or>
      (case fromisoformat (replace ''Z'' ''+00:00'' (end_date_v2 m)) of
         None \<Rightarrow> True
       | Some d \<Rightarrow>
           (utcoffset d = None \<or> utcoffset d = Some 0) \<and>
           now \<le> instant d \<and>
           (instant d - now) div microseconds_per_day \<le> days_ahead))"



text \<open>The price of a market is missing: no \<^verbatim>\<open>prices\<close>, or no \<^verbatim>\<open>yes\<close> among them.\<close>

definition price_missing :: "market \<Rightarrow> bool" where
  "price_missing m = (case prices m of None \<Rightarrow> True | Some d \<Rightarrow> map_of d ''yes'' = None)"

section \<open>Example inputs\<close>

definition example_search :: "nat \<Rightarrow> string \<Rightarrow> string" where
  "example_search n query = ''- **a**- **b**- **c** bull rally''"

definition example_market :: market where
  "example_market =
     \<lparr>m_question = Some ''Will it rain?'', m_id = Some ''m1'', endDate = None,
      event_title = None, event_end_date = None,
      prices = Some [(''yes'', JNumber 0.35)], volume = None\<rparr>"

definition example_events :: "event list" where
  "example_events =
     [\<lparr>ev_title = Some ''Weather'', ev_endDate = None, ev_markets = Some [example_market]\<rparr>]"

text \<open>
  Two dates as \<^verbatim>\<open>datetime.fromisoformat\<close> reads them, in microseconds since
  1970-01-01T00:00:00: midnight of 2020-01-01 at offset zero, and noon of 2026-11-04 at
  offset +05:00, which is 07:00 UTC. \<open>example_now\<close> is 2026-11-04T10:00:00 UTC.
\<close>

definition example_fromisoformat :: "string \<Rightarrow> datetime option" where
  "example_fromisoformat s =
     (if s = ''2020-01-01T00:00:00+00:00''
      then Some \<lparr>wall = 1577836800000000, utcoffset = Some 0\<rparr>
      else if s = ''2026-11-04T12:00:00+05:00''
      then Some \<lparr>wall = 1793793600000000, utcoffset = Some 18000000000\<rparr>
      else None)"

definition example_now :: int where
  "example_now = 1793786400000000"

definition offset_market :: market where
  "offset_market = example_market\<lparr>endDate := Some ''2026-11-04T12:00:00+05:00''\<rparr>"

definition stale_market :: market where
  "stale_market =
     example_market\<lparr>m_question := Some ''Done by 2025?'', endDate := Some ''2020-01-01T00:00:00Z''\<rparr>"

definition year_market :: market where
  "year_market = example_market\<lparr>m_question := Some ''Done by 2025?''\<rparr>"

text \<open>
  A market that ends 2026-11-20T00:00:00 UTC, fifteen whole days after \<open>example_now\<close>,
  with a question that names 2025, and a reading of its date.
\<close>

definition dated_year_market :: market where
  "dated_year_market = year_market\<lparr>endDate := Some ''2026-11-20T00:00:00Z''\<rparr>"

definition utc_fromisoformat :: "string \<Rightarrow> datetime option" where
  "utc_fromisoformat s =
     (if s = ''2026-11-20T00:00:00+00:00''
      then Some \<lparr>wall = 1795132800000000, utcoffset = Some 0\<rparr>
      else None)"

definition unpriced_market :: market where
  "unpriced_market = example_market\<lparr>prices := None\<rparr>"


text \<open>A search that finds text for the query \<^verbatim>\<open>a_b\<close> only.\<close>

definition collision_search :: "nat \<Rightarrow> string \<Rightarrow> string" where
  "collision_search n query = (if query = ''a_b'' then ''bull'' else [])"

definition example_clock :: "nat \<Rightarrow> int" where
  "example_clock i = example_now"

text \<open>What the example market becomes: the prediction, the paper trade, the ledger row.\<close>

definition example_predictor :: web_predictor where
  "example_predictor =
     \<lparr>cache = [(''Will it rain?_other'',
                 \<lparr>prob_yes = 0.75, confidence = 0.84, reasoning = Bullish 1 3, sentiment = 1\<rparr>)],
      searched = [(''Will it rain?'', ''other'')]\<rparr>"

definition example_trade :: paper_trade where
  "example_trade =
     \<lparr>market_id = ''m1'', question = ''Will it rain?'', category = ''other'',
      our_prediction = 0.75, market_odds = 0.35, direction = YES,
      trade_confidence = 0.84, edge = 0.40, sentiment_score = 1,
      trade_reasoning = Bullish 1 3, trade_size = 43.6, open_time = example_now\<rparr>"

definition unpriced_trade :: paper_trade where
  "unpriced_trade = example_trade\<lparr>market_odds := 0.5, edge := 0.25\<rparr>"

definition unresolved_row :: ledger_row where
  "unresolved_row =
     \<lparr>trade = example_trade,
      resolve_time = None, outcome = None, resolved_value = None, pnl = None\<rparr>"

definition won_row :: ledger_row where
  "won_row = unresolved_row\<lparr>resolve_time := Some ''2026-11-05T00:00:00'', outcome := Some ''WIN'',
                             resolved_value := Some 1, pnl := Some 20\<rparr>"

text \<open>A configuration with the default limits, and an opportunity for the bot.\<close>

definition example_config :: config where
  "example_config = \<lparr>cfg_max_trade_size = 50, cfg_max_open_positions = 5, cfg_auto_execute = True\<rparr>"

definition one_position_config :: config where
  "one_position_config = example_config\<lparr>cfg_max_open_positions := 1\<rparr>"

definition example_calculate_position :: "real \<Rightarrow> real \<Rightarrow> real \<Rightarrow> real" where
  "example_calculate_position conf e volatility = 10 + conf * 40"

definition example_approve_trade :: "real \<Rightarrow> real \<Rightarrow> real \<Rightarrow> bool" where
  "example_approve_trade position_size probability price = True"

definition example_opportunity :: opportunity where
  "example_opportunity =
     \<lparr>opp_market = \<lparr>bm_id = Some ''m1'', bm_volume = None, bm_yes_price = None\<rparr>,
      opp_prediction = \<lparr>bp_direction = ''YES'', bp_probability = 0.60, bp_confidence = 0.70,
                        bp_reasoning = ''Bullish''\<rparr>,
      opp_edge = 0.07\<rparr>"

definition example_decision :: decision where
  "example_decision =
     \<lparr>dec_market_id = ''m1'', dec_side = NO, dec_size = 38, dec_confidence = 0.70,
      dec_reasoning = ''Bullish''\<rparr>"

section \<open>Rounding keeps order and fixes two-decimal numbers\<close>

lemma round_half_even_of_int: "round_half_even (of_int n) = n"
  by (simp add: round_half_even_def)

lemma round_half_even_bounds:
  "\<lfloor>x\<rfloor> \<le> round_half_even x \<and> round_half_even x \<le> \<lfloor>x\<rfloor> + 1"
  by (simp add: round_half_even_def Let_def)

lemma round_half_even_mono:
  assumes "x \<le> y"
  shows "round_half_even x \<le> round_half_even y"
proof (cases "\<lfloor>x\<rfloor> = \<lfloor>y\<rfloor>")
  case True
  with assms show ?thesis
    by (auto simp: round_half_even_def Let_def)
next
  case False
  moreover from assms have "\<lfloor>x\<rfloor> \<le> \<lfloor>y\<rfloor>"
    by (rule floor_mono)
  ultimately have "\<lfloor>x\<rfloor> + 1 \<le> \<lfloor>y\<rfloor>"
    by simp
  with round_half_even_bounds [of x] round_half_even_bounds [of y] show ?thesis
    by linarith
qed

lemma py_round2_mono: "x \<le> y \<Longrightarrow> py_round2 x \<le> py_round2 y"
  by (simp add: py_round2_def round_half_even_mono divide_right_mono)

lemma py_round2_hundredth: "py_round2 (of_int k / 100) = of_int k / 100"
  by (simp add: py_round2_def round_half_even_of_int)

lemma py_round2_between:
  assumes "of_int a / 100 \<le> x" and "x \<le> of_int b / 100"
  shows "of_int a / 100 \<le> py_round2 x \<and> py_round2 x \<le> of_int b / 100"
  using py_round2_mono [OF assms(1)] py_round2_mono [OF assms(2)]
  by (simp add: py_round2_hundredth)

lemma hundredths_py_round2: "hundredths (py_round2 x)"
  unfolding hundredths_def py_round2_def [of x] by (rule py_round2_hundredth)


section \<open>Properties of the prediction engine\<close>

lemma parse_results_clamped: "clamped (parse_results text q)"
proof (cases "text = []")
  case True
  then show ?thesis
    by (simp add: parse_results_def clamped_def)
next
  case False
  define s where "s = analyze_sentiment text"
  define n where "n = count_sources text"
  have p: "of_int 5 / 100 \<le> max 0.05 (min 0.95 (0.5 + s * 0.25))"
    "max 0.05 (min 0.95 (0.5 + s * 0.25)) \<le> of_int 95 / 100"
    by (simp_all add: max_def min_def)
  have c: "of_int 0 / 100 \<le> min (0.35 + real n * 0.08 + \<bar>s\<bar> * 0.25) 0.85"
    "min (0.35 + real n * 0.08 + \<bar>s\<bar> * 0.25) 0.85 \<le> of_int 85 / 100"
    by (simp_all add: min_def add_nonneg_nonneg)
  from py_round2_between [OF p] py_round2_between [OF c] False show ?thesis
    by (simp add: parse_results_def clamped_def Let_def s_def n_def)
qed

lemma parse_results_hundredths: "hundredths (confidence (parse_results text q))"
proof (cases "text = []")
  case True
  have "hundredths (of_int 0 / 100)"
    unfolding hundredths_def by (rule py_round2_hundredth)
  with True show ?thesis
    by (simp add: parse_results_def)
next
  case False
  then show ?thesis
    by (simp add: parse_results_def Let_def hundredths_py_round2)
qed

lemma predict_hit:
  "map_of (cache st) (cache_key q c) = Some p \<Longrightarrow> predict search q c st = (p, st)"
  by (simp add: predict_def)

lemma predict_miss:
  assumes "map_of (cache st) (cache_key q c) = None"
  shows "predict search q c st =
    (parse_results (search (length (searched st)) (build_query q c)) q,
     st\<lparr>cache := cache st @ [(cache_key q c, parse_results (search (length (searched st)) (build_query q c)) q)],
        searched := searched st @ [(q, c)]\<rparr>)"
  using assms by (simp add: predict_def Let_def)

lemma predict_stores:
  "map_of (cache (snd (predict search q c st))) (cache_key q c) = Some (fst (predict search q c st))"
proof (cases "map_of (cache st) (cache_key q c)")
  case None
  then show ?thesis
    by (simp add: predict_miss map_add_def)
next
  case (Some p)
  then show ?thesis
    by (simp add: predict_hit)
qed

lemma predict_keeps:
  assumes "map_of (cache st) k = Some p"
  shows "map_of (cache (snd (predict search q c st))) k = Some p"
proof (cases "map_of (cache st) (cache_key q c)")
  case None
  with assms show ?thesis
    by (simp add: predict_miss map_add_def)
next
  case (Some p')
  with assms show ?thesis
    by (simp add: predict_hit)
qed

lemma predict_all_keeps:
  "map_of (cache st) k = Some p \<Longrightarrow> map_of (cache (predict_all search calls st)) k = Some p"
  by (induction calls arbitrary: st) (auto simp: predict_keeps)

lemma predict_cache_ok:
  assumes "cache_ok st"
  shows "cache_ok (snd (predict search q c st))"
proof (cases "map_of (cache st) (cache_key q c)")
  case None
  with assms show ?thesis
    by (simp add: predict_miss cache_ok_def parse_results_clamped parse_results_hundredths)
next
  case (Some p)
  with assms show ?thesis
    by (simp add: predict_hit)
qed

lemma predict_result_ok:
  assumes "cache_ok st"
  shows "clamped (fst (predict search q c st)) \<and> hundredths (confidence (fst (predict search q c st)))"
proof (cases "map_of (cache st) (cache_key q c)")
  case None
  then show ?thesis
    by (simp add: predict_miss parse_results_clamped parse_results_hundredths)
next
  case (Some p)
  then have "(cache_key q c, p) \<in> set (cache st)"
    by (rule map_of_SomeD)
  with assms have "clamped p \<and> hundredths (confidence p)"
    by (auto simp: cache_ok_def list_all_iff)
  with Some show ?thesis
    by (simp add: predict_hit)
qed

lemma reachable_cache_ok: "reachable search st \<Longrightarrow> cache_ok st"
  by (induction rule: reachable.induct) (simp_all add: cache_ok_def init_predictor_def predict_cache_ok [unfolded cache_ok_def])

lemma predict_searched_ok:
  assumes "searched_ok st"
  shows "searched_ok (snd (predict search q c st))"
proof (cases "map_of (cache st) (cache_key q c)")
  case None
  from assms have "(q, c) \<notin> set (searched st)"
    using None by (auto simp: searched_ok_def list_all_iff)
  with assms None show ?thesis
    by (auto simp: predict_miss searched_ok_def list_all_iff map_add_def split: option.splits)
next
  case (Some p)
  with assms show ?thesis
    by (simp add: predict_hit)
qed

lemma reachable_searched_ok: "reachable search st \<Longrightarrow> searched_ok st"
  by (induction rule: reachable.induct) (simp_all add: predict_searched_ok, simp add: searched_ok_def init_predictor_def)

lemma reachable_predict_all:
  "reachable search st \<Longrightarrow> reachable search (predict_all search calls st)"
  by (induction calls arbitrary: st) (auto simp: reachable.called)

text \<open>
  Claim C2. Every prediction that \<^verbatim>\<open>predict\<close> returns, for any question, category and
  search answer (the empty answer of a failed search included), whether computed or taken
  from the cache of a predictor that started empty, has a probability of YES between 0.05
  and 0.95 and a confidence between 0 and 0.85.
\<close>

theorem prediction_in_clamped_ranges:
  assumes "reachable search st"
  shows "0.05 \<le> prob_yes (fst (predict search q c st)) \<and>
         prob_yes (fst (predict search q c st)) \<le> 0.95 \<and>
         0 \<le> confidence (fst (predict search q c st)) \<and>
         confidence (fst (predict search q c st)) \<le> 0.85"
  using predict_result_ok [OF reachable_cache_ok [OF assms], of search q c]
  by (simp add: clamped_def)

theorem prediction_in_clamped_ranges_witness:
  "reachable example_search init_predictor \<and>
   prob_yes (fst (predict example_search ''Will it rain?'' ''other'' init_predictor)) = 0.75 \<and>
   0.05 \<le> prob_yes (fst (predict example_search ''Will it rain?'' ''other'' init_predictor)) \<and>
   prob_yes (fst (predict example_search ''Will it rain?'' ''other'' init_predictor)) \<le> 0.95 \<and>
   0 \<le> confidence (fst (predict example_search ''Will it rain?'' ''other'' init_predictor)) \<and>
   confidence (fst (predict example_search ''Will it rain?'' ''other'' init_predictor)) \<le> 0.85"
proof -
  have r: "reachable example_search init_predictor"
    by (rule reachable.created)
  have v: "prob_yes (fst (predict example_search ''Will it rain?'' ''other'' init_predictor)) = 0.75"
    by code_simp
  from prediction_in_clamped_ranges [OF r, of "''Will it rain?''" "''other''"] r v
  show ?thesis
    by blast
qed

text \<open>
  Claim C3. Once \<^verbatim>\<open>predict\<close> has returned for a pair of question and category, every
  later call with that pair on the same predictor, whatever calls came in between, returns
  the same prediction and leaves the predictor as it is, so it searches nothing; and in
  the history of a predictor that started empty no pair was searched twice.
\<close>

theorem predict_cached_once:
  assumes "reachable search st"
    and "predict search q c st = (p, st')"
  shows "predict search q c (predict_all search calls st') = (p, predict_all search calls st') \<and>
         distinct (searched (predict_all search calls st'))"
proof -
  from assms(2) have "map_of (cache st') (cache_key q c) = Some p"
    using predict_stores [of search q c st] by simp
  then have "map_of (cache (predict_all search calls st')) (cache_key q c) = Some p"
    by (rule predict_all_keeps)
  then have hit: "predict search q c (predict_all search calls st') = (p, predict_all search calls st')"
    by (rule predict_hit)
  from assms have "reachable search st'"
    using reachable.called [of search st q c] by simp
  then have "reachable search (predict_all search calls st')"
    by (rule reachable_predict_all)
  then have "searched_ok (predict_all search calls st')"
    by (rule reachable_searched_ok)
  with hit show ?thesis
    by (simp add: searched_ok_def)
qed

theorem predict_cached_once_witness:
  "reachable example_search init_predictor \<and>
   predict example_search ''Will it rain?'' ''other'' init_predictor =
     (\<lparr>prob_yes = 0.75, confidence = 0.84, reasoning = Bullish 1 3, sentiment = 1\<rparr>,
      \<lparr>cache = [(''Will it rain?_other'',
                  \<lparr>prob_yes = 0.75, confidence = 0.84, reasoning = Bullish 1 3, sentiment = 1\<rparr>)],
       searched = [(''Will it rain?'', ''other'')]\<rparr>) \<and>
   predict example_search ''Will it rain?'' ''other''
       (predict_all example_search [(''a'', ''b'')]
          \<lparr>cache = [(''Will it rain?_other'',
                      \<lparr>prob_yes = 0.75, confidence = 0.84, reasoning = Bullish 1 3, sentiment = 1\<rparr>)],
           searched = [(''Will it rain?'', ''other'')]\<rparr>) =
     (\<lparr>prob_yes = 0.75, confidence = 0.84, reasoning = Bullish 1 3, sentiment = 1\<rparr>,
      predict_all example_search [(''a'', ''b'')]
          \<lparr>cache = [(''Will it rain?_other'',
                      \<lparr>prob_yes = 0.75, confidence = 0.84, reasoning = Bullish 1 3, sentiment = 1\<rparr>)],
           searched = [(''Will it rain?'', ''other'')]\<rparr>) \<and>
   distinct (searched (predict_all example_search [(''a'', ''b'')]
          \<lparr>cache = [(''Will it rain?_other'',
                      \<lparr>prob_yes = 0.75, confidence = 0.84, reasoning = Bullish 1 3, sentiment = 1\<rparr>)],
           searched = [(''Will it rain?'', ''other'')]\<rparr>))"
proof -
  have r: "reachable example_search init_predictor"
    by (rule reachable.created)
  have v: "predict example_search ''Will it rain?'' ''other'' init_predictor =
     (\<lparr>prob_yes = 0.75, confidence = 0.84, reasoning = Bullish 1 3, sentiment = 1\<rparr>,
      \<lparr>cache = [(''Will it rain?_other'',
                  \<lparr>prob_yes = 0.75, confidence = 0.84, reasoning = Bullish 1 3, sentiment = 1\<rparr>)],
       searched = [(''Will it rain?'', ''other'')]\<rparr>)"
    by code_simp
  from predict_cached_once [OF r v, of "[(''a'', ''b'')]"] r v show ?thesis
    by blast
qed

section \<open>The cache key\<close>



text \<open>
  The key is the question, an underscore and the category in one string. A category with
  an underscore, which no call site passes, would share its key with another pair:
  after \<^verbatim>\<open>predict("a_b", "c")\<close> the call \<^verbatim>\<open>predict("a", "b_c")\<close> is answered from the
  cache.
\<close>

lemma cache_key_collision:
  "predict collision_search ''a_b'' ''c'' init_predictor =
     (\<lparr>prob_yes = 0.75, confidence = 0.60, reasoning = Bullish 1 0, sentiment = 1\<rparr>,
      \<lparr>cache = [(''a_b_c'', \<lparr>prob_yes = 0.75, confidence = 0.60, reasoning = Bullish 1 0, sentiment = 1\<rparr>)],
       searched = [(''a_b'', ''c'')]\<rparr>) \<and>
   predict collision_search ''a'' ''b_c''
       \<lparr>cache = [(''a_b_c'', \<lparr>prob_yes = 0.75, confidence = 0.60, reasoning = Bullish 1 0, sentiment = 1\<rparr>)],
        searched = [(''a_b'', ''c'')]\<rparr> =
     (\<lparr>prob_yes = 0.75, confidence = 0.60, reasoning = Bullish 1 0, sentiment = 1\<rparr>,
      \<lparr>cache = [(''a_b_c'', \<lparr>prob_yes = 0.75, confidence = 0.60, reasoning = Bullish 1 0, sentiment = 1\<rparr>)],
       searched = [(''a_b'', ''c'')]\<rparr>) \<and>
   fst (predict collision_search ''a'' ''b_c'' init_predictor) =
     \<lparr>prob_yes = 0.5, confidence = 0, reasoning = No_search_results, sentiment = 0\<rparr>"
  by code_simp









section \<open>What a scan writes to the ledger\<close>

lemma check_end_date_result: "check_end_date fromisoformat now e = Some r \<Longrightarrow> r = No_trade"
  by (auto simp: check_end_date_def Let_def split: if_splits option.splits)

lemma check_end_date_v2_result:
  "check_end_date_v2 fromisoformat now days e = Some r \<Longrightarrow> r = SKIPPED_DATE \<or> r = No_trade"
  by (auto simp: check_end_date_v2_def Let_def split: if_splits option.splits)

lemma predict_and_score_trade:
  assumes "predict_and_score search now m pst = Inr (Trade t, pst')"
  shows "meets_thresholds t \<and>
         yes_price_of m = JNumber (market_odds t) \<and>
         our_prediction t = prob_yes (fst (predict search (question t) (category t) pst)) \<and>
         trade_confidence t = confidence (fst (predict search (question t) (category t) pst)) \<and>
         trade_size t = proposed_size (trade_confidence t) \<and>
         direction t = (if our_prediction t > market_odds t then YES else NO) \<and>
         pst' = snd (predict search (question t) (category t) pst)"
  using assms
  by (auto simp: predict_and_score_def Let_def meets_thresholds_def
      split: prod.splits jval.splits if_splits)

lemma analyze_market_trade:
  assumes "analyze_market fromisoformat search now m pst = Inr (Trade t, pst')"
  shows "predict_and_score search now m pst = Inr (Trade t, pst')"
  using assms
  by (auto simp: analyze_market_def Let_def split: option.splits dest: check_end_date_result)

lemma analyze_market_v2_trade:
  assumes "analyze_market_v2 fromisoformat search year now m days pst = Inr (Trade t, pst')"
  shows "predict_and_score search now m pst = Inr (Trade t, pst')"
  using assms
  by (auto simp: analyze_market_v2_def Let_def split: option.splits if_splits
      dest: check_end_date_v2_result)

lemma analyze_all_trades:
  assumes "\<And>i m pst t pst'. analyze i m pst = Inr (Trade t, pst') \<Longrightarrow> P t"
    and "analyze_all analyze i ms pst = Inr (ts, pst')"
  shows "\<forall>t\<in>set ts. P t"
  using assms(2)
proof (induction ms arbitrary: i pst ts pst')
  case Nil
  then show ?case by simp
next
  case (Cons m ms)
  from Cons.prems obtain r pst1 ts1 where
    a: "analyze i m pst = Inr (r, pst1)" and
    b: "analyze_all analyze (Suc i) ms pst1 = Inr (ts1, pst')" and
    c: "ts = trades_of r @ ts1"
    by (auto split: sum.splits prod.splits)
  from a assms(1) have "\<forall>t\<in>set (trades_of r). P t"
    by (cases r) (auto simp: trades_of_def)
  moreover from Cons.IH [OF b] have "\<forall>t\<in>set ts1. P t" .
  ultimately show ?case
    using c by auto
qed

text \<open>
  Claim C1. In both versions of the paper trader a scan that returns has added to the
  ledger exactly one row for each paper trade it returns, and each of them has
  edge = |our probability - quoted YES price|, edge at least 0.10 and confidence at least
  0.65. For one market, \<^verbatim>\<open>_analyze_market\<close> returns a paper trade only if the price is a
  number and the prediction made for the market has that edge against it and that
  confidence; a market that fails a bound gives no paper trade, so no row.
\<close>

theorem ledger_rows_meet_thresholds:
  "(scan_and_predict fromisoformat search clock events self = Inr (predictions, self') \<longrightarrow>
      db self' = log_predictions predictions (db self) \<and>
      (\<forall>t\<in>set predictions. meets_thresholds t)) \<and>
   (scan_and_predict_v2 fromisoformat search clock events days_ahead self2 = Inr (predictions2, self2') \<longrightarrow>
      db self2' = log_predictions predictions2 (db self2) \<and>
      (\<forall>t\<in>set predictions2. meets_thresholds t)) \<and>
   (analyze_market fromisoformat search now m pst = Inr (Trade t, pst') \<longrightarrow>
      meets_thresholds t \<and> yes_price_of m = JNumber (market_odds t) \<and>
      our_prediction t = prob_yes (fst (predict search (question t) (category t) pst)) \<and>
      trade_confidence t = confidence (fst (predict search (question t) (category t) pst))) \<and>
   (analyze_market_v2 fromisoformat search year now m days_ahead pst = Inr (Trade t, pst') \<longrightarrow>
      meets_thresholds t \<and> yes_price_of m = JNumber (market_odds t) \<and>
      our_prediction t = prob_yes (fst (predict search (question t) (category t) pst)) \<and>
      trade_confidence t = confidence (fst (predict search (question t) (category t) pst)))"
proof (intro conjI impI)
  assume s: "scan_and_predict fromisoformat search clock events self = Inr (predictions, self')"
  then obtain pst1 where
    a: "analyze_all (\<lambda>i. analyze_market fromisoformat search (clock i)) 0 (flatten events)
          (predictor self) = Inr (predictions, pst1)"
    and b: "self' = self\<lparr>predictor := pst1, db := log_predictions predictions (db self)\<rparr>"
    by (auto simp: scan_and_predict_def split: sum.splits prod.splits)
  from b show "db self' = log_predictions predictions (db self)"
    by simp
  show "\<forall>t\<in>set predictions. meets_thresholds t"
    by (rule analyze_all_trades [OF _ a]) (blast dest: analyze_market_trade predict_and_score_trade)
next
  assume s: "scan_and_predict_v2 fromisoformat search clock events days_ahead self2 = Inr (predictions2, self2')"
  then obtain pst1 where
    a: "analyze_all (\<lambda>i m. analyze_market_v2 fromisoformat search (current_year self2) (clock i) m days_ahead)
          0 (flatten events) (predictor self2) = Inr (predictions2, pst1)"
    and b: "self2' = self2\<lparr>predictor := pst1, db := log_predictions predictions2 (db self2)\<rparr>"
    by (auto simp: scan_and_predict_v2_def split: sum.splits prod.splits)
  from b show "db self2' = log_predictions predictions2 (db self2)"
    by simp
  show "\<forall>t\<in>set predictions2. meets_thresholds t"
    by (rule analyze_all_trades [OF _ a]) (blast dest: analyze_market_v2_trade predict_and_score_trade)
next
  assume "analyze_market fromisoformat search now m pst = Inr (Trade t, pst')"
  then have p: "predict_and_score search now m pst = Inr (Trade t, pst')"
    by (rule analyze_market_trade)
  from predict_and_score_trade [OF p]
  show "meets_thresholds t" "yes_price_of m = JNumber (market_odds t)"
    "our_prediction t = prob_yes (fst (predict search (question t) (category t) pst))"
    "trade_confidence t = confidence (fst (predict search (question t) (category t) pst))"
    by simp_all
next
  assume "analyze_market_v2 fromisoformat search year now m days_ahead pst = Inr (Trade t, pst')"
  then have p: "predict_and_score search now m pst = Inr (Trade t, pst')"
    by (rule analyze_market_v2_trade)
  from predict_and_score_trade [OF p]
  show "meets_thresholds t" "yes_price_of m = JNumber (market_odds t)"
    "our_prediction t = prob_yes (fst (predict search (question t) (category t) pst))"
    "trade_confidence t = confidence (fst (predict search (question t) (category t) pst))"
    by simp_all
qed


theorem ledger_rows_meet_thresholds_witness:
  "scan_and_predict example_fromisoformat example_search example_clock example_events
       \<lparr>predictor = init_predictor, db = []\<rparr> =
     Inr ([example_trade], \<lparr>predictor = example_predictor, db = [unresolved_row]\<rparr>) \<and>
   scan_and_predict_v2 example_fromisoformat example_search example_clock example_events 30
       \<lparr>predictor = init_predictor, db = [], current_year = 2026\<rparr> =
     Inr ([example_trade], \<lparr>predictor = example_predictor, db = [unresolved_row], current_year = 2026\<rparr>) \<and>
   analyze_market example_fromisoformat example_search example_now example_market init_predictor =
     Inr (Trade example_trade, example_predictor) \<and>
   analyze_market_v2 example_fromisoformat example_search 2026 example_now example_market 30 init_predictor =
     Inr (Trade example_trade, example_predictor) \<and>
   meets_thresholds example_trade \<and>
   yes_price_of example_market = JNumber (market_odds example_trade)"
proof -
  have a: "scan_and_predict example_fromisoformat example_search example_clock example_events
       \<lparr>predictor = init_predictor, db = []\<rparr> =
     Inr ([example_trade], \<lparr>predictor = example_predictor, db = [unresolved_row]\<rparr>)"
    by code_simp
  have b: "scan_and_predict_v2 example_fromisoformat example_search example_clock example_events 30
       \<lparr>predictor = init_predictor, db = [], current_year = 2026\<rparr> =
     Inr ([example_trade], \<lparr>predictor = example_predictor, db = [unresolved_row], current_year = 2026\<rparr>)"
    by code_simp
  have c: "analyze_market example_fromisoformat example_search example_now example_market init_predictor =
     Inr (Trade example_trade, example_predictor)"
    by code_simp
  have d: "analyze_market_v2 example_fromisoformat example_search 2026 example_now example_market 30 init_predictor =
     Inr (Trade example_trade, example_predictor)"
    by code_simp
  from ledger_rows_meet_thresholds [of example_fromisoformat example_search example_clock example_events
      "\<lparr>predictor = init_predictor, db = []\<rparr>" "[example_trade]"
      "\<lparr>predictor = example_predictor, db = [unresolved_row]\<rparr>" 30
      "\<lparr>predictor = init_predictor, db = [], current_year = 2026\<rparr>" "[example_trade]"
      "\<lparr>predictor = example_predictor, db = [unresolved_row], current_year = 2026\<rparr>"
      example_now example_market init_predictor example_trade example_predictor 2026]
    a b c d
  show ?thesis
    by simp
qed

section \<open>The size of a paper trade\<close>






section \<open>The end date\<close>

text \<open>
  A date whose clock reading, taken as UTC, is before now is skipped, and the predictor is
  not touched.
\<close>

lemma past_utc_end_date_skipped:
  assumes "end_date_v2 m \<noteq> []"
    and "fromisoformat (replace ''Z'' ''+00:00'' (end_date_v2 m)) = Some d"
    and "wall d < now"
  shows "analyze_market_v2 fromisoformat search year now m days_ahead pst = Inr (SKIPPED_DATE, pst)"
  using assms
  by (simp add: analyze_market_v2_def check_end_date_v2_def replace_tzinfo_utc_def instant_def Let_def)

text \<open>
  Claim C5: a market whose end date parses and lies before now gets the tag
  \<^verbatim>\<open>SKIPPED_DATE\<close> and never reaches the predictor. The code misses the dates that
  carry an offset: the end date \<^verbatim>\<open>2026-11-04T12:00:00+05:00\<close> parses and denotes
  07:00 UTC, three hours before now (10:00 UTC); the code replaces the offset by UTC
  without converting, compares 12:00 UTC with now, does not return \<^verbatim>\<open>SKIPPED_DATE\<close>
  and goes on to call the predictor, which searches and fills its cache.
\<close>

theorem offset_end_date_not_skipped:
  "end_date_v2 offset_market = ''2026-11-04T12:00:00+05:00'' \<and>
   example_fromisoformat (replace ''Z'' ''+00:00'' (end_date_v2 offset_market)) =
     Some \<lparr>wall = 1793793600000000, utcoffset = Some 18000000000\<rparr> \<and>
   instant \<lparr>wall = 1793793600000000, utcoffset = Some 18000000000\<rparr> = 1793775600000000 \<and>
   instant \<lparr>wall = 1793793600000000, utcoffset = Some 18000000000\<rparr> < example_now \<and>
   analyze_market_v2 example_fromisoformat example_search 2026 example_now offset_market 30 init_predictor =
     Inr (Trade example_trade, example_predictor)"
  by code_simp

section \<open>The year in the question\<close>

text \<open>Every year token of the specification is among the matches of the regular expression.\<close>

lemma spec_year_tokens_found: "set (spec_year_tokens after_digit s) \<subseteq> set (findall_year s)"
proof (induction s arbitrary: after_digit rule: findall_year.induct)
  case (1 a b c d s)
  show ?case
  proof (cases "a = CHR ''2'' \<and> b = CHR ''0'' \<and> isdigit c \<and> isdigit d")
    case True
    then have "isdigit a" "isdigit b"
      by (simp_all add: isdigit_def)
    with True have "spec_year_tokens True (b # c # d # s) = spec_year_tokens True s"
      by simp
    moreover have "set (spec_year_tokens True s) \<subseteq> set (findall_year s)"
      using "1.IH"(1) True by blast
    ultimately show ?thesis
      using True \<open>isdigit a\<close> by (auto simp: is_year_def)
  next
    case False
    then have "\<not> is_year [a, b, c, d]"
      by (simp add: is_year_def)
    moreover have "set (spec_year_tokens (isdigit a) (b # c # d # s)) \<subseteq> set (findall_year (b # c # d # s))"
      using "1.IH"(2) False by blast
    ultimately show ?thesis
      using False by auto
  qed
qed (simp_all add: is_year_def)

lemma has_past_year_found:
  assumes "has_past_year year q"
  shows "list_ex (\<lambda>w. py_int w < year) (findall_year q)"
  using assms spec_year_tokens_found [of False q]
  by (auto simp: has_past_year_def list_ex_iff)

text \<open>
  Where the specification lets a market through the end-date step, the code goes on to
  the year scan.
\<close>

lemma end_date_lets_through_check:
  assumes "end_date_lets_through fromisoformat now days_ahead m"
  shows "check_end_date_v2 fromisoformat now days_ahead (end_date_v2 m) = None"
proof (cases "end_date_v2 m = []")
  case True
  then show ?thesis
    by (simp add: check_end_date_v2_def)
next
  case False
  show ?thesis
  proof (cases "fromisoformat (replace ''Z'' ''+00:00'' (end_date_v2 m))")
    case None
    then show ?thesis
      by (simp add: check_end_date_v2_def)
  next
    case (Some d)
    with assms False have utc: "utcoffset d = None \<or> utcoffset d = Some 0"
      and ge: "now \<le> instant d"
      and near: "(instant d - now) div microseconds_per_day \<le> days_ahead"
      by (simp_all add: end_date_lets_through_def)
    from utc have "instant (replace_tzinfo_utc d) = instant d"
      by (auto simp: instant_def replace_tzinfo_utc_def)
    with Some False ge near show ?thesis
      by (simp add: check_end_date_v2_def Let_def)
  qed
qed

text \<open>
  Claim C6, as amended. For every market whose resolution date is missing, or does not
  parse, or is written in UTC (no offset or offset zero) and is not before now and not
  more than \<^verbatim>\<open>days_ahead\<close> whole days ahead, and whose question contains a year token
  \<^verbatim>\<open>20xx\<close> below the current year (\<^verbatim>\<open>self.current_year\<close>), \<^verbatim>\<open>_analyze_market\<close> returns
  \<^verbatim>\<open>SKIPPED_YEAR\<close> and leaves the predictor untouched: no prediction is computed.
\<close>

theorem past_year_in_question_skipped:
  assumes "end_date_lets_through fromisoformat now days_ahead m"
    and "has_past_year year (question_of m)"
  shows "analyze_market_v2 fromisoformat search year now m days_ahead pst = Inr (SKIPPED_YEAR, pst)"
  using end_date_lets_through_check [OF assms(1)] has_past_year_found [OF assms(2)]
  by (simp add: analyze_market_v2_def Let_def)

theorem past_year_in_question_skipped_witness:
  "end_date_lets_through utc_fromisoformat example_now 30 dated_year_market \<and>
   has_past_year 2026 (question_of dated_year_market) \<and>
   analyze_market_v2 utc_fromisoformat example_search 2026 example_now dated_year_market 30 init_predictor =
     Inr (SKIPPED_YEAR, init_predictor)"
proof -
  have a: "end_date_lets_through utc_fromisoformat example_now 30 dated_year_market"
    by code_simp
  have b: "has_past_year 2026 (question_of dated_year_market)"
    by code_simp
  from past_year_in_question_skipped [OF a b, of example_search init_predictor] a b show ?thesis
    by blast
qed

text \<open>
  Claim C6 as stated fails where the end-date check comes first: a question with the
  year 2025 on a market that ended in 2020 gets the tag \<^verbatim>\<open>SKIPPED_DATE\<close>.
\<close>

theorem past_year_behind_past_date:
  "has_past_year 2026 (question_of stale_market) \<and>
   analyze_market_v2 example_fromisoformat example_search 2026 example_now stale_market 30 init_predictor =
     Inr (SKIPPED_DATE, init_predictor) \<and>
   analyze_market_v2 example_fromisoformat example_search 2026 example_now stale_market 30 init_predictor \<noteq>
     Inr (SKIPPED_YEAR, init_predictor)"
  by code_simp

section \<open>A market without a price\<close>

lemma predict_and_score_no_raise:
  assumes "price_missing m"
  shows "yes_price_of m = JNumber 0.5" and "predict_and_score search now m pst \<noteq> Inl e"
proof -
  from assms show y: "yes_price_of m = JNumber 0.5"
    by (auto simp: price_missing_def yes_price_of_def split: option.splits)
  then show "predict_and_score search now m pst \<noteq> Inl e"
    by (simp add: predict_and_score_def Let_def split: prod.splits)
qed

text \<open>
  Claim C8, as amended. For a market record without a price, the quoted YES price that
  both paper traders compare with the prediction is 0.5, a paper trade made for it carries
  the market odds 0.5, and \<^verbatim>\<open>_analyze_market\<close> raises nothing; the listing script
  check\_markets.py prints 0 for a missing price and for a missing volume; the paper
  traders never read the volume, and the risk gate of main.py reads a missing volume as
  1000 and a missing price as 0.5.
\<close>

theorem missing_price_defaults_to_half:
  "(price_missing m \<longrightarrow>
      yes_price_of m = JNumber 0.5 \<and>
      analyze_market fromisoformat search now m pst \<noteq> Inl e \<and>
      analyze_market_v2 fromisoformat search year now m days_ahead pst \<noteq> Inl e \<and>
      listed_yes_price float_of_string m = 0) \<and>
   (price_missing m \<and>
    analyze_market_v2 fromisoformat search year now m days_ahead pst = Inr (Trade t, pst') \<longrightarrow>
      market_odds t = 0.5) \<and>
   (volume m = None \<longrightarrow> listed_volume float_of_string m = 0) \<and>
   evaluate_position cfg calculate_position approve_trade ps
       \<lparr>opp_market = \<lparr>bm_id = i, bm_volume = None, bm_yes_price = None\<rparr>,
        opp_prediction = p, opp_edge = x\<rparr> =
     evaluate_position cfg calculate_position approve_trade ps
       \<lparr>opp_market = \<lparr>bm_id = i, bm_volume = Some 1000, bm_yes_price = Some 0.5\<rparr>,
        opp_prediction = p, opp_edge = x\<rparr>"
proof (intro conjI impI)
  assume pm: "price_missing m"
  from predict_and_score_no_raise [OF pm]
  have y: "yes_price_of m = JNumber 0.5" and n: "predict_and_score search now m pst \<noteq> Inl e"
    by simp_all
  from y show "yes_price_of m = JNumber 0.5" .
  from n show "analyze_market fromisoformat search now m pst \<noteq> Inl e"
    by (simp add: analyze_market_def Let_def split: option.splits)
  from n show "analyze_market_v2 fromisoformat search year now m days_ahead pst \<noteq> Inl e"
    by (simp add: analyze_market_v2_def Let_def split: option.splits)
  from pm show "listed_yes_price float_of_string m = 0"
    by (auto simp: listed_yes_price_def price_missing_def py_float_def Let_def split: option.splits)
next
  assume h: "price_missing m \<and>
    analyze_market_v2 fromisoformat search year now m days_ahead pst = Inr (Trade t, pst')"
  then have "predict_and_score search now m pst = Inr (Trade t, pst')"
    using analyze_market_v2_trade by blast
  from predict_and_score_trade [OF this] have "yes_price_of m = JNumber (market_odds t)"
    by simp
  moreover from h have "yes_price_of m = JNumber 0.5"
    using predict_and_score_no_raise(1) by blast
  ultimately show "market_odds t = 0.5"
    by simp
next
  assume "volume m = None"
  then show "listed_volume float_of_string m = 0"
    by (simp add: listed_volume_def py_float_def)
next
  show "evaluate_position cfg calculate_position approve_trade ps
       \<lparr>opp_market = \<lparr>bm_id = i, bm_volume = None, bm_yes_price = None\<rparr>,
        opp_prediction = p, opp_edge = x\<rparr> =
     evaluate_position cfg calculate_position approve_trade ps
       \<lparr>opp_market = \<lparr>bm_id = i, bm_volume = Some 1000, bm_yes_price = Some 0.5\<rparr>,
        opp_prediction = p, opp_edge = x\<rparr>"
    by (cases i) (simp_all add: evaluate_position_def Let_def)
qed

theorem missing_price_defaults_to_half_witness:
  "price_missing unpriced_market \<and>
   volume unpriced_market = None \<and>
   analyze_market_v2 example_fromisoformat example_search 2026 example_now unpriced_market 30 init_predictor =
     Inr (Trade unpriced_trade, example_predictor) \<and>
   yes_price_of unpriced_market = JNumber 0.5 \<and>
   market_odds unpriced_trade = 0.5 \<and>
   listed_yes_price (\<lambda>s. None) unpriced_market = 0 \<and>
   listed_volume (\<lambda>s. None) unpriced_market = 0"
proof -
  have a: "price_missing unpriced_market"
    by code_simp
  have b: "volume unpriced_market = None"
    by code_simp
  have c: "analyze_market_v2 example_fromisoformat example_search 2026 example_now unpriced_market 30 init_predictor =
     Inr (Trade unpriced_trade, example_predictor)"
    by code_simp
  from missing_price_defaults_to_half [of unpriced_market example_fromisoformat example_search
      example_now init_predictor TypeError 2026 30 "\<lambda>s. None" unpriced_trade example_predictor]
    a b c
  show ?thesis
    by blast
qed

text \<open>
  Claim C8 as stated fails: for the example market without prices the quoted YES price
  is 0.5, not 0.
\<close>

theorem missing_price_is_not_zero:
  "price_missing unpriced_market \<and>
   yes_price_of unpriced_market = JNumber 0.5 \<and>
   yes_price_of unpriced_market \<noteq> JNumber 0"
  by code_simp

section \<open>The risk gate\<close>

lemma length_update_fresh:
  "k \<notin> fst ` set ps \<Longrightarrow> length (AList.update k v ps) = Suc (length ps)"
  by (induction ps) auto

lemma evaluate_position_accepts:
  assumes "evaluate_position cfg calculate_position approve_trade ps opp = Inr (Some d)"
  shows "int (length ps) < cfg_max_open_positions cfg \<and>
         bm_id (opp_market opp) = Some (dec_market_id d) \<and>
         dec_market_id d \<notin> fst ` set ps"
  using assms
  by (auto simp: evaluate_position_def Let_def image_iff split: if_splits option.splits)

lemma execute_trade_keeps:
  assumes "distinct (map fst ps)" and "int (length ps) < n" and "dec_market_id d \<notin> fst ` set ps"
  shows "distinct (map fst (snd (execute_trade cfg result ps d))) \<and>
         int (length (snd (execute_trade cfg result ps d))) \<le> n"
  using assms
  by (cases result) (auto simp: execute_trade_def distinct_update length_update_fresh)

lemma monitor_loop_keeps:
  assumes "distinct (map fst ps)"
  shows "distinct (map fst (snd (monitor_loop resolved items ps))) \<and>
         length (snd (monitor_loop resolved items ps)) \<le> length ps"
  using assms
proof (induction items arbitrary: ps)
  case Nil
  then show ?case by simp
next
  case (Cons item items)
  obtain mid position where item: "item = (mid, position)"
    by (cases item)
  show ?case
  proof (cases "resolved mid")
    case None
    with Cons.prems item show ?thesis by simp
  next
    case (Some b)
    show ?thesis
    proof (cases b)
      case True
      from Cons.prems have "distinct (map fst (AList.delete mid ps))"
        by (rule distinct_delete)
      from Cons.IH [OF this] length_delete_le [of mid ps] Some True item show ?thesis
        by (simp del: delete_simps)
    next
      case False
      with Cons.IH [OF Cons.prems] Some item show ?thesis by simp
    qed
  qed
qed

lemma bot_reachable_bounded:
  assumes "bot_reachable cfg calculate_position approve_trade ps"
    and "0 \<le> cfg_max_open_positions cfg"
  shows "distinct (map fst ps) \<and> int (length ps) \<le> cfg_max_open_positions cfg"
  using assms
proof (induction rule: bot_reachable.induct)
  case started
  then show ?case by simp
next
  case (traded ps opp d result)
  from evaluate_position_accepts [OF traded.hyps(2)] traded.IH [OF traded.prems]
  show ?case
    using execute_trade_keeps by blast
next
  case (monitored ps resolved)
  from monitor_loop_keeps [of ps resolved ps] monitored.IH [OF monitored.prems]
  show ?case
    by (simp add: monitor_positions_def)
qed

text \<open>
  Claim C7. \<^verbatim>\<open>evaluate_position\<close> returns no decision when the number of open positions
  has reached \<^verbatim>\<open>max_open_positions\<close>, and none when the market of the opportunity
  already has an open position. So, when \<^verbatim>\<open>max_open_positions\<close> is not negative, in every
  state the bot reaches by executing decisions of the gate and by monitoring, there are at
  most \<^verbatim>\<open>max_open_positions\<close> open positions and no market id has two.
\<close>

theorem risk_gate_limits_positions:
  "(cfg_max_open_positions cfg \<le> int (length ps) \<longrightarrow>
      evaluate_position cfg calculate_position approve_trade ps opp = Inr None) \<and>
   (bm_id (opp_market opp) = Some mid \<and> mid \<in> fst ` set ps \<longrightarrow>
      evaluate_position cfg calculate_position approve_trade ps opp = Inr None) \<and>
   (0 \<le> cfg_max_open_positions cfg \<and> bot_reachable cfg calculate_position approve_trade ps \<longrightarrow>
      int (length ps) \<le> cfg_max_open_positions cfg \<and> distinct (map fst ps))"
proof (intro conjI impI)
  assume "cfg_max_open_positions cfg \<le> int (length ps)"
  then show "evaluate_position cfg calculate_position approve_trade ps opp = Inr None"
    by (simp add: evaluate_position_def)
next
  assume "bm_id (opp_market opp) = Some mid \<and> mid \<in> fst ` set ps"
  then show "evaluate_position cfg calculate_position approve_trade ps opp = Inr None"
    by (simp add: evaluate_position_def Let_def)
next
  assume h: "0 \<le> cfg_max_open_positions cfg \<and> bot_reachable cfg calculate_position approve_trade ps"
  with bot_reachable_bounded
  show "int (length ps) \<le> cfg_max_open_positions cfg" and "distinct (map fst ps)"
    by blast+
qed

theorem risk_gate_limits_positions_witness:
  "cfg_max_open_positions one_position_config \<le> int (length [(''m1'', example_decision)]) \<and>
   bm_id (opp_market example_opportunity) = Some ''m1'' \<and>
   ''m1'' \<in> fst ` set [(''m1'', example_decision)] \<and>
   0 \<le> cfg_max_open_positions one_position_config \<and>
   bot_reachable one_position_config example_calculate_position example_approve_trade
     [(''m1'', example_decision)] \<and>
   evaluate_position one_position_config example_calculate_position example_approve_trade
     [(''m1'', example_decision)] example_opportunity = Inr None \<and>
   int (length [(''m1'', example_decision)]) \<le> cfg_max_open_positions one_position_config \<and>
   distinct (map fst [(''m1'', example_decision)])"
proof -
  have a: "cfg_max_open_positions one_position_config \<le> int (length [(''m1'', example_decision)])"
    by code_simp
  have b: "bm_id (opp_market example_opportunity) = Some ''m1'' \<and>
      ''m1'' \<in> fst ` set [(''m1'', example_decision)]"
    by (simp add: example_opportunity_def)
  have c: "0 \<le> cfg_max_open_positions one_position_config"
    by code_simp
  have e: "evaluate_position one_position_config example_calculate_position example_approve_trade
      [] example_opportunity = Inr (Some example_decision)"
    by code_simp
  have x: "snd (execute_trade one_position_config Order_placed [] example_decision) =
      [(''m1'', example_decision)]"
    by (simp add: execute_trade_def one_position_config_def example_config_def example_decision_def)
  have r: "bot_reachable one_position_config example_calculate_position example_approve_trade
      [(''m1'', example_decision)]"
    using bot_reachable.traded [OF bot_reachable.started e, of Order_placed] x by simp
  from risk_gate_limits_positions [of one_position_config "[(''m1'', example_decision)]"
      example_calculate_position example_approve_trade example_opportunity "''m1''"]
    a b c r
  show ?thesis
    by blast
qed

section \<open>Statistics read the ledger\<close>

lemma max_length_nonempty: "xs \<noteq> [] \<Longrightarrow> max (length xs) (Suc 0) = length xs"
  by (cases xs) simp_all

lemma count_resolved_outcome:
  "length (filter (\<lambda>r. outcome r = Some v) (filter (\<lambda>r. outcome r \<noteq> None) rows)) =
   count_list (map outcome rows) (Some v)"
  by (induction rows) auto

lemma count_outcome:
  "length (filter (\<lambda>r. outcome r = Some v) rows) = count_list (map outcome rows) (Some v)"
  by (induction rows) auto

lemma sum_resolved_pnl:
  "sum_list (List.map_filter pnl (filter (\<lambda>r. outcome r \<noteq> None) rows)) =
   (\<Sum>r\<leftarrow>rows. if outcome r = None then 0 else case pnl r of Some v \<Rightarrow> v | None \<Rightarrow> 0)"
  by (induction rows) (auto simp: List.map_filter_simps split: option.splits)

text \<open>
  Claim C10, as amended. \<^verbatim>\<open>get_stats\<close> of paper\_trader.py returns the number of
  resolved rows (rows with an outcome) as its total, the numbers of rows with outcome WIN
  and with outcome LOSS, the win rate 100 * wins / (wins + losses) (0 when there is
  neither), and the sum of the profit-and-loss of the resolved rows; \<^verbatim>\<open>get_stats\<close> of
  scheduler.py returns the number of all rows, the number of resolved rows, the number of
  wins and the win rate 100 * wins / resolved (0 when nothing is resolved). Both leave
  the ledger as it is.
\<close>

theorem get_stats_counts_resolved_rows:
  "(get_stats self = (st, self') \<longrightarrow>
      self' = self \<and>
      total_predictions st = length (filter (\<lambda>r. outcome r \<noteq> None) (db self)) \<and>
      wins st = count_list (map outcome (db self)) (Some ''WIN'') \<and>
      losses st = count_list (map outcome (db self)) (Some ''LOSS'') \<and>
      win_rate st = (if 0 < wins st + losses st
                     then real (wins st) / real (wins st + losses st) * 100 else 0) \<and>
      total_pnl st =
        (\<Sum>r\<leftarrow>db self. if outcome r = None then 0 else case pnl r of Some v \<Rightarrow> v | None \<Rightarrow> 0)) \<and>
   (scheduler_get_stats rows = (ss, rows') \<longrightarrow>
      rows' = rows \<and>
      sched_total ss = length rows \<and>
      sched_resolved ss = length (filter (\<lambda>r. outcome r \<noteq> None) rows) \<and>
      sched_wins ss = count_list (map outcome rows) (Some ''WIN'') \<and>
      sched_win_rate ss = (if 0 < sched_resolved ss
                           then real (sched_wins ss) / real (sched_resolved ss) * 100 else 0))"
proof (intro conjI impI)
  assume g: "get_stats self = (st, self')"
  then show "self' = self"
    by (auto simp: get_stats_def Let_def)
  from g have st: "st = fst (get_stats self)"
    by simp
  show "total_predictions st = length (filter (\<lambda>r. outcome r \<noteq> None) (db self))"
    unfolding st by (simp add: get_stats_def Let_def)
  show w: "wins st = count_list (map outcome (db self)) (Some ''WIN'')"
    unfolding st by (simp only: get_stats_def Let_def fst_conv stats.simps count_resolved_outcome)
  show l: "losses st = count_list (map outcome (db self)) (Some ''LOSS'')"
    unfolding st by (simp only: get_stats_def Let_def fst_conv stats.simps count_resolved_outcome)
  show "win_rate st = (if 0 < wins st + losses st
                     then real (wins st) / real (wins st + losses st) * 100 else 0)"
    unfolding st by (simp add: get_stats_def Let_def)
  show "total_pnl st =
        (\<Sum>r\<leftarrow>db self. if outcome r = None then 0 else case pnl r of Some v \<Rightarrow> v | None \<Rightarrow> 0)"
    unfolding st by (simp only: get_stats_def Let_def fst_conv stats.simps sum_resolved_pnl)
next
  assume g: "scheduler_get_stats rows = (ss, rows')"
  then show "rows' = rows"
    by (auto simp: scheduler_get_stats_def Let_def split: if_splits)
  from g have ss: "ss = fst (scheduler_get_stats rows)"
    by simp
  show "sched_total ss = length rows"
    unfolding ss by (simp add: scheduler_get_stats_def Let_def)
  show "sched_resolved ss = length (filter (\<lambda>r. outcome r \<noteq> None) rows)"
    unfolding ss by (simp add: scheduler_get_stats_def Let_def)
  show "sched_wins ss = count_list (map outcome rows) (Some ''WIN'')"
    unfolding ss by (simp add: scheduler_get_stats_def Let_def count_outcome)
  show "sched_win_rate ss = (if 0 < sched_resolved ss
                           then real (sched_wins ss) / real (sched_resolved ss) * 100 else 0)"
    unfolding ss by (simp add: scheduler_get_stats_def Let_def max_length_nonempty)
qed

theorem get_stats_counts_resolved_rows_witness:
  "get_stats \<lparr>predictor = init_predictor, db = [unresolved_row, won_row]\<rparr> =
     (\<lparr>total_predictions = 1, wins = 1, losses = 0, win_rate = 100, total_pnl = 20\<rparr>,
      \<lparr>predictor = init_predictor, db = [unresolved_row, won_row]\<rparr>) \<and>
   scheduler_get_stats [unresolved_row, won_row] =
     (\<lparr>sched_total = 2, sched_resolved = 1, sched_wins = 1, sched_win_rate = 100\<rparr>,
      [unresolved_row, won_row]) \<and>
   total_predictions \<lparr>total_predictions = 1, wins = 1, losses = 0, win_rate = 100, total_pnl = 20\<rparr> =
     length (filter (\<lambda>r. outcome r \<noteq> None) (db \<lparr>predictor = init_predictor, db = [unresolved_row, won_row]\<rparr>)) \<and>
   sched_total \<lparr>sched_total = 2, sched_resolved = 1, sched_wins = 1, sched_win_rate = 100\<rparr> =
     length [unresolved_row, won_row]"
proof -
  have a: "get_stats \<lparr>predictor = init_predictor, db = [unresolved_row, won_row]\<rparr> =
     (\<lparr>total_predictions = 1, wins = 1, losses = 0, win_rate = 100, total_pnl = 20\<rparr>,
      \<lparr>predictor = init_predictor, db = [unresolved_row, won_row]\<rparr>)"
    by code_simp
  have b: "scheduler_get_stats [unresolved_row, won_row] =
     (\<lparr>sched_total = 2, sched_resolved = 1, sched_wins = 1, sched_win_rate = 100\<rparr>,
      [unresolved_row, won_row])"
    by code_simp
  from get_stats_counts_resolved_rows [of "\<lparr>predictor = init_predictor, db = [unresolved_row, won_row]\<rparr>"
      "\<lparr>total_predictions = 1, wins = 1, losses = 0, win_rate = 100, total_pnl = 20\<rparr>"
      "\<lparr>predictor = init_predictor, db = [unresolved_row, won_row]\<rparr>"
      "[unresolved_row, won_row]"
      "\<lparr>sched_total = 2, sched_resolved = 1, sched_wins = 1, sched_win_rate = 100\<rparr>"
      "[unresolved_row, won_row]"]
    a b
  show ?thesis
    by blast
qed

text \<open>
  Claim C10 as stated fails for paper\_trader.py: on a ledger of one open row the total
  it returns is 0, not the number of ledger rows.
\<close>

theorem total_predictions_skips_open_rows:
  "length (db \<lparr>predictor = init_predictor, db = [unresolved_row]\<rparr>) = 1 \<and>
   total_predictions (fst (get_stats \<lparr>predictor = init_predictor, db = [unresolved_row]\<rparr>)) = 0 \<and>
   total_predictions (fst (get_stats \<lparr>predictor = init_predictor, db = [unresolved_row]\<rparr>)) \<noteq>
     length (db \<lparr>predictor = init_predictor, db = [unresolved_row]\<rparr>)"
  by code_simp

end
